theory Spec2Isabelle
  imports Main "HOL-Library.Sublist"
begin

section \<open>Python values and exceptions\<close>

text \<open>
  The fragment of Python's values that crosses the serializer boundary here. \<open>PNone\<close> is
  Python's \<open>None\<close>, which the datastore interface also uses as its "no value" answer. A
  \<open>dict\<close> is kept as the list of its items, without repeated keys; on these values
  Python's \<open>==\<close> is equality.
\<close>

datatype pyval =
    PNone
  | PInt int
  | PStr string
  | PList "pyval list"
  | PDict "(pyval \<times> pyval) list"

text \<open>
  A raised exception: the \<open>AssertionError\<close> of an \<open>assert\<close> statement with its message, or
  any other exception (raised by a serializer or by a backend), by its name.
\<close>

datatype exn = AssertionError string | Exception string

section \<open>Serializers (serialize.py)\<close>

text \<open>
  A serializer is anything that responds to \<open>loads\<close> and \<open>dumps\<close>:
  \<^item> \<open>Serializer_obj l d\<close>: a module, class or object with the two callables \<open>l\<close> and
    \<open>d\<close> (the \<open>json\<close> and \<open>pickle\<close> modules, a user's class). A call returns a
    value or raises. Such an object has Python's default truth value, \<open>True\<close>;
  \<^item> \<open>NonSerializer\<close>: the class of that name;
  \<^item> \<open>Stack self\<close>: an instance of \<open>class Stack(Serializer, list)\<close>, the list \<open>self\<close>
    of its serializers.
\<close>

datatype serializer =
    Serializer_obj "pyval \<Rightarrow> exn + pyval" "pyval \<Rightarrow> exn + pyval"
  | NonSerializer
  | Stack "serializer list"

text \<open>
  One round of a \<open>for\<close> loop whose body rebinds \<open>value\<close>: an exception raised in an
  earlier round leaves the loop, so later rounds do nothing.
\<close>

definition rebind :: "(pyval \<Rightarrow> exn + pyval) \<Rightarrow> exn + pyval \<Rightarrow> exn + pyval" where
  "rebind f r = (case r of Inl e \<Rightarrow> Inl e | Inr val \<Rightarrow> f val)"

text \<open>
  \<^verbatim>\<open>
  NonSerializer.loads(cls, value):  return value
  Stack.loads(self, value):
      for serializer in reversed(self):
          value = serializer.loads(value)
      return value
  \<close>
\<close>

fun loads :: "serializer \<Rightarrow> pyval \<Rightarrow> exn + pyval" where
  "loads (Serializer_obj l d) val = l val"
| "loads NonSerializer val = Inr val"
| "loads (Stack self) val =
     fold (\<lambda>serializer. rebind (loads serializer)) (rev self) (Inr val)"

text \<open>
  \<^verbatim>\<open>
  NonSerializer.dumps(cls, value):  return value
  Stack.dumps(self, value):
      for serializer in self:
          value = serializer.dumps(value)
      return value
  \<close>
\<close>

fun dumps :: "serializer \<Rightarrow> pyval \<Rightarrow> exn + pyval" where
  "dumps (Serializer_obj l d) val = d val"
| "dumps NonSerializer val = Inr val"
| "dumps (Stack self) val =
     fold (\<lambda>serializer. rebind (dumps serializer)) self (Inr val)"

text \<open>
  The truth value of a serializer object, as \<open>if serializer:\<close> tests it: a \<open>Stack\<close> is a
  list, so it is true exactly when it is not empty; classes, modules and plain objects are
  true.
\<close>

fun truthy :: "serializer \<Rightarrow> bool" where
  "truthy (Stack self) = (self \<noteq> [])"
| "truthy _ = True"

text \<open>
  \<open>loads\<close> undoes \<open>dumps\<close> on the value \<open>v\<close>: \<open>dumps\<close> returns, and \<open>loads\<close> of what it
  returned is \<open>v\<close> again.
\<close>

definition round_trips :: "serializer \<Rightarrow> pyval \<Rightarrow> bool" where
  "round_trips J v = (case dumps J v of Inl e \<Rightarrow> False | Inr r \<Rightarrow> loads J r = Inr v)"


section \<open>Generators (serialize.py)\<close>

text \<open>
  An iterable, as the state of its iteration:
  \<^item> \<open>Source xs\<close>: the items \<open>xs\<close> a backend still has to hand out;
  \<^item> \<open>Deserialized_gen serializer it\<close>, \<open>Serialized_gen serializer it\<close>: a suspended
    generator of \<open>deserialized_gen\<close> or \<open>serialized_gen\<close>, holding its serializer and the
    iterable it reads;
  \<^item> \<open>Finished\<close>: a generator that has returned or raised.
\<close>

datatype iterable =
    Source "pyval list"
  | Deserialized_gen serializer iterable
  | Serialized_gen serializer iterable
  | Finished

text \<open>The outcome of one \<open>next\<close> on an iterator.\<close>

datatype step = Yield pyval | StopIteration | Raise exn

text \<open>
  The calls made to a generator's serializer, in the order they happen: what a counting
  serializer would observe.
\<close>

datatype call = Loads_call pyval | Dumps_call pyval

text \<open>
  \<^verbatim>\<open>
  def deserialized_gen(serializer, iterable):
      for item in iterable:
          yield serializer.loads(item)

  def serialized_gen(serializer, iterable):
      for item in iterable:
          yield serializer.dumps(item)
  \<close>
  Calling a generator function runs none of its body: it returns the suspended generator.
\<close>

definition deserialized_gen :: "serializer \<Rightarrow> iterable \<Rightarrow> iterable" where
  "deserialized_gen serializer iterable = Deserialized_gen serializer iterable"

definition serialized_gen :: "serializer \<Rightarrow> iterable \<Rightarrow> iterable" where
  "serialized_gen serializer iterable = Serialized_gen serializer iterable"

text \<open>
  One \<open>next\<close>: the generator resumes, takes one item from the iterable it reads, calls
  its serializer on that item and yields the result. An exception ends the generator.
\<close>

fun iter_next :: "iterable \<Rightarrow> call list \<Rightarrow> step \<times> iterable \<times> call list" where
  "iter_next (Source []) log = (StopIteration, Source [], log)"
| "iter_next (Source (item # items)) log = (Yield item, Source items, log)"
| "iter_next (Deserialized_gen serializer iterable) log =
     (case iter_next iterable log of
        (Yield item, iterable', log') \<Rightarrow>
          (case loads serializer item of
             Inr v \<Rightarrow> (Yield v, Deserialized_gen serializer iterable', log' @ [Loads_call item])
           | Inl e \<Rightarrow> (Raise e, Finished, log' @ [Loads_call item]))
      | (StopIteration, iterable', log') \<Rightarrow> (StopIteration, Finished, log')
      | (Raise e, iterable', log') \<Rightarrow> (Raise e, Finished, log'))"
| "iter_next (Serialized_gen serializer iterable) log =
     (case iter_next iterable log of
        (Yield item, iterable', log') \<Rightarrow>
          (case dumps serializer item of
             Inr v \<Rightarrow> (Yield v, Serialized_gen serializer iterable', log' @ [Dumps_call item])
           | Inl e \<Rightarrow> (Raise e, Finished, log' @ [Dumps_call item]))
      | (StopIteration, iterable', log') \<Rightarrow> (StopIteration, Finished, log')
      | (Raise e, iterable', log') \<Rightarrow> (Raise e, Finished, log'))"
| "iter_next Finished log = (StopIteration, Finished, log)"

text \<open>
  A consumer that asks for at most \<open>m\<close> elements and then stops (a \<open>for\<close> loop left by
  \<open>break\<close>): the elements it got, the exception that ended it if one did, the state the
  iterable is left in, and the calls made.
\<close>

fun consume :: "nat \<Rightarrow> iterable \<Rightarrow> call list \<Rightarrow> pyval list \<times> exn option \<times> iterable \<times> call list" where
  "consume 0 it log = ([], None, it, log)"
| "consume (Suc m) it log =
     (case iter_next it log of
        (Yield v, it', log') \<Rightarrow>
          (case consume m it' log' of (vs, e, it'', log'') \<Rightarrow> (v # vs, e, it'', log''))
      | (StopIteration, it', log') \<Rightarrow> ([], None, it', log')
      | (Raise e, it', log') \<Rightarrow> ([], Some e, it', log'))"

section \<open>The datastore interface\<close>

text \<open>
  Modelled from the spec: the cursor class that \<open>query\<close> returns (not under src/). It
  carries the lazy sequence of results, the attribute \<open>_iterable\<close> that serialize.py
  replaces, and whatever else the backend supplies (a total count, the query): the
  extension of the record.
\<close>

record cursor =
  iterable :: iterable

text \<open>
  Modelled from the spec: the operations of a child datastore that the shim calls (the
  class \<open>Datastore\<close> of basic.py is not under src/), over the child's stored state
  \<open>'s\<close>. \<open>get\<close> answers \<open>PNone\<close> for a key that is not there; every operation may raise a
  backend error. Keys \<open>'k\<close> and queries \<open>'q\<close> are opaque to the shim.
\<close>

record ('s, 'k, 'q, 'm) datastore =
  ds_get :: "'s \<Rightarrow> 'k \<Rightarrow> exn + pyval"
  ds_put :: "'s \<Rightarrow> 'k \<Rightarrow> pyval \<Rightarrow> exn + 's"
  ds_query :: "'s \<Rightarrow> 'q \<Rightarrow> exn + 'm cursor_scheme"

text \<open>
  The contract of \<open>put\<close> and \<open>get\<close>: a value that was put under a key is the value
  \<open>get\<close> returns for it.
\<close>

definition get_after_put :: "('s, 'k, 'q, 'm) datastore \<Rightarrow> bool" where
  "get_after_put C = (\<forall>s k r s'. ds_put C s k r = Inr s' \<longrightarrow> ds_get C s' k = Inr r)"

section \<open>SerializerShimDatastore (serialize.py)\<close>

text \<open>The object: the child of the \<open>ShimDatastore\<close> superclass, and the serializer.\<close>

record ('s, 'k, 'q, 'm) serializer_shim_datastore =
  child_datastore :: "('s, 'k, 'q, 'm) datastore"
  serializer :: serializer

definition error_str :: string where
  "error_str = ''Serializer error: serialized value does not match original''"

text \<open>
  \<^verbatim>\<open>
  def __init__(self, datastore, serializer=None):
      super(SerializerShimDatastore, self).__init__(datastore)
      if serializer:
          self.serializer = serializer
      # ensure serializer works
      test = {'value': repr(self)}
      error_str = 'Serializer error: serialized value does not match original'
      assert self.serializer.loads(self.serializer.dumps(test)) == test, error_str
  \<close>
  The class attribute \<open>serializer = default_serializer\<close> (the \<open>json\<close> module) and the
  string \<open>repr(self)\<close> come from outside serialize.py: they are the parameters
  \<open>default_serializer\<close> and \<open>repr_self\<close>. The \<open>assert\<close> statement is executed (Python
  does so unless it runs with \<open>-O\<close>). The result is the constructed object, or the exception
  that left the constructor. The constructor of the superclass \<open>ShimDatastore\<close> (basic.py,
  not under src/) is taken to keep the child as \<open>child_datastore\<close>; the constructor is
  handed the child object and calls none of its operations.
\<close>

definition SerializerShimDatastore ::
  "serializer \<Rightarrow> string \<Rightarrow> ('s, 'k, 'q, 'm) datastore \<Rightarrow> serializer option
    \<Rightarrow> exn + ('s, 'k, 'q, 'm) serializer_shim_datastore" where
  "SerializerShimDatastore default_serializer repr_self datastore serializer_arg =
     (let self_serializer =
            (case serializer_arg of
               None \<Rightarrow> default_serializer
             | Some s \<Rightarrow> if truthy s then s else default_serializer);
          test = PDict [(PStr ''value'', PStr repr_self)]
      in case dumps self_serializer test of
           Inl e \<Rightarrow> Inl e
         | Inr serialized \<Rightarrow>
             (case loads self_serializer serialized of
                Inl e \<Rightarrow> Inl e
              | Inr deserialized \<Rightarrow>
                  if deserialized = test
                  then Inr \<lparr>child_datastore = datastore, serializer = self_serializer\<rparr>
                  else Inl (AssertionError error_str)))"


text \<open>
  \<^verbatim>\<open>
  def get(self, key):
      value = self.child_datastore.get(key)
      return self.serializer.loads(value) if value is not None else None
  \<close>
\<close>

definition get :: "('s, 'k, 'q, 'm) serializer_shim_datastore \<Rightarrow> 's \<Rightarrow> 'k \<Rightarrow> exn + pyval" where
  "get self s key =
     (case ds_get (child_datastore self) s key of
        Inl e \<Rightarrow> Inl e
      | Inr val \<Rightarrow> if val \<noteq> PNone then loads (serializer self) val else Inr PNone)"

text \<open>
  \<^verbatim>\<open>
  def put(self, key, value):
      value = self.serializer.dumps(value) if value is not None else None
      self.child_datastore.put(key, value)
  \<close>
\<close>

definition put :: "('s, 'k, 'q, 'm) serializer_shim_datastore \<Rightarrow> 's \<Rightarrow> 'k \<Rightarrow> pyval \<Rightarrow> exn + 's" where
  "put self s key val =
     (case (if val \<noteq> PNone then dumps (serializer self) val else Inr PNone) of
        Inl e \<Rightarrow> Inl e
      | Inr val' \<Rightarrow> ds_put (child_datastore self) s key val')"

text \<open>
  \<^verbatim>\<open>
  def query(self, query):
      # run the query on the child datastore
      cursor = self.child_datastore.query(query)
      # chain the deserializing generator to the cursor's result set iterable
      cursor._iterable = deserialized_gen(self.serializer, cursor._iterable)
      return cursor
  \<close>
\<close>

definition query ::
  "('s, 'k, 'q, 'm) serializer_shim_datastore \<Rightarrow> 's \<Rightarrow> 'q \<Rightarrow> exn + 'm cursor_scheme" where
  "query self s q =
     (case ds_query (child_datastore self) s q of
        Inl e \<Rightarrow> Inl e
      | Inr cursor \<Rightarrow>
          Inr (cursor\<lparr>iterable := deserialized_gen (serializer self) (iterable cursor)\<rparr>))"

section \<open>Stand-ins for the worked instances\<close>

text \<open>
  Modelled from the spec: an in-memory child datastore, in the place of \<open>DictDatastore\<close>
  of basic.py (not under src/). Its state is the list of its items, each under the
  string of its key; its queries carry nothing. \<open>put\<close> stores the
  value under the key, overwriting any prior value; \<open>get\<close> returns the stored value or
  \<open>PNone\<close>; \<open>query\<close> returns a cursor over the stored values that also carries their
  count.
\<close>

record counted_cursor = cursor +
  total :: nat

definition DictDatastore :: "((string \<times> pyval) list, string, unit, \<lparr>total :: nat\<rparr>) datastore" where
  "DictDatastore =
     \<lparr>ds_get = (\<lambda>items key. Inr (case map_of items key of None \<Rightarrow> PNone | Some val \<Rightarrow> val)),
      ds_put = (\<lambda>items key val. Inr ((key, val) # filter (\<lambda>item. fst item \<noteq> key) items)),
      ds_query = (\<lambda>items q. Inr \<lparr>iterable = Source (map snd items), total = length items\<rparr>)\<rparr>"

text \<open>
  Three serializers a caller could pass (none is part of the repository):
  \<^item> \<open>boxing\<close> serializes a value as the one-element list holding it;
  \<^item> \<open>null_aware\<close> stores text as it is and, as the \<open>json\<close> module does for the text
    \<open>null\<close>, deserializes that text to \<open>None\<close>;
  \<^item> \<open>str_serializer\<close> stores a string as it is and anything else as a fixed text, as a
    serializer built on \<open>str\<close> would.
\<close>

definition boxing :: serializer where
  "boxing =
     Serializer_obj
       (\<lambda>val. case val of PList [x] \<Rightarrow> Inr x | _ \<Rightarrow> Inl (Exception ''ValueError''))
       (\<lambda>val. Inr (PList [val]))"

definition null_aware :: serializer where
  "null_aware =
     Serializer_obj (\<lambda>val. if val = PStr ''null'' then Inr PNone else Inr val) (\<lambda>val. Inr val)"

definition str_serializer :: serializer where
  "str_serializer =
     Serializer_obj
       (\<lambda>val. Inr val)
       (\<lambda>val. case val of PStr s \<Rightarrow> Inr (PStr s) | _ \<Rightarrow> Inr (PStr ''<object>''))"

section \<open>Keys\<close>

text \<open>
  Modelled from the spec: the normalization of the class \<open>Key\<close> of key.py (not under
  src/, only its tests are), first part: repeated separators are collapsed to one.
\<close>

fun collapse_separators :: "string \<Rightarrow> string" where
  "collapse_separators (a # b # cs) =
     (if a = CHR ''/'' \<and> b = CHR ''/'' then collapse_separators (b # cs)
      else a # collapse_separators (b # cs))"
| "collapse_separators cs = cs"

text \<open>
  Modelled from the spec: the normalization of \<open>Key\<close> (key.py, not under src/), second
  part: the trailing separator is dropped, except for the root \<open>/\<close>.
\<close>

definition drop_trailing_separator :: "string \<Rightarrow> string" where
  "drop_trailing_separator s =
     (if s \<noteq> [] \<and> s \<noteq> ''/'' \<and> last s = CHR ''/'' then butlast s else s)"

text \<open>
  Modelled from the spec: \<open>Key.remove_duplicate_slashes\<close> (key.py, not under src/), the
  spec's \<open>normalize\<close>: collapse, then drop the trailing separator.
\<close>

definition remove_duplicate_slashes :: "string \<Rightarrow> string" where
  "remove_duplicate_slashes path = drop_trailing_separator (collapse_separators path)"

text \<open>A string in which no separator follows a separator.\<close>

fun no_repeat :: "string \<Rightarrow> bool" where
  "no_repeat (a # b # cs) = (\<not> (a = CHR ''/'' \<and> b = CHR ''/'') \<and> no_repeat (b # cs))"
| "no_repeat cs = True"

text \<open>
  Modelled from the spec: an object of the class \<open>Key\<close> (key.py, not under src/) holds
  its normalized string, the attribute \<open>_string\<close>, and nothing else.
\<close>

datatype key = Key_of (key_string: string)

text \<open>
  Modelled from the spec: the constructor of \<open>Key\<close> (key.py, not under src/) normalizes
  the raw string and never fails.
\<close>

definition Key :: "string \<Rightarrow> key" where
  "Key raw = Key_of (remove_duplicate_slashes raw)"

text \<open>Python's \<open>s.split('/')\<close> and \<open>'/'.join(segments)\<close>, which the tests of \<open>parent\<close> use.\<close>

fun split :: "string \<Rightarrow> string list" where
  "split [] = [[]]"
| "split (c # cs) =
     (if c = CHR ''/'' then [] # split cs
      else (case split cs of [] \<Rightarrow> [[c]] | seg # segs \<Rightarrow> (c # seg) # segs))"

fun join :: "string list \<Rightarrow> string" where
  "join [] = []"
| "join [seg] = seg"
| "join (seg # segs) = seg @ CHR ''/'' # join segs"

text \<open>
  Modelled from the spec: \<open>Key.child\<close> (key.py, not under src/) appends the label, a
  bare name or the string of another key, as a new segment.
\<close>

definition child :: "key \<Rightarrow> string \<Rightarrow> key" where
  "child k name = Key (key_string k @ ''/'' @ name)"

text \<open>
  Modelled from the spec: \<open>Key.parent\<close> (key.py, not under src/) is the key of all
  segments but the last and fails with \<open>InvalidOperation\<close> when the key has only one
  segment. test_key.py counts the segments as the elements of the split of the normalized
  string, and expects the key of their join.
\<close>

definition parent :: "key \<Rightarrow> exn + key" where
  "parent k =
     (let segments = split (key_string k)
      in if length segments > 1 then Inr (Key (join (butlast segments)))
         else Inl (Exception ''InvalidOperation''))"

text \<open>
  Modelled from the spec: \<open>Key.is_ancestor_of\<close> (key.py, not under src/) is true iff the
  other key's normalized string starts with this key's string plus a separator and the two
  are not equal.
\<close>

definition is_ancestor_of :: "key \<Rightarrow> key \<Rightarrow> bool" where
  "is_ancestor_of k other = (prefix (key_string k @ ''/'') (key_string other) \<and> k \<noteq> other)"

text \<open>
  Modelled from the spec: \<open>Key.is_descendant_of\<close> (key.py, not under src/) is the inverse
  relation.
\<close>

definition is_descendant_of :: "key \<Rightarrow> key \<Rightarrow> bool" where
  "is_descendant_of k other = is_ancestor_of other k"

section \<open>Stack: order of application and round trip\<close>

lemma rebind_Inl [simp]: "rebind f (Inl e) = Inl e"
  by (simp add: rebind_def)










section \<open>The shim: put, get and absence\<close>

lemma get_after_put_DictDatastore: "get_after_put DictDatastore"
  by (simp add: get_after_put_def DictDatastore_def)

lemma get_after_shim_put:
  assumes "val \<noteq> PNone"
    and "dumps (serializer S) val = Inr r" and "r \<noteq> PNone"
    and "loads (serializer S) r = Inr val"
    and "get_after_put (child_datastore S)"
    and "put S s k val = Inr s'"
  shows "ds_get (child_datastore S) s' k = Inr r" and "get S s' k = Inr val"
proof -
  from assms(1,2,6) have "ds_put (child_datastore S) s k r = Inr s'"
    by (simp add: put_def)
  with assms(5) show stored: "ds_get (child_datastore S) s' k = Inr r"
    by (simp add: get_after_put_def)
  from stored assms(3,4) show "get S s' k = Inr val"
    by (simp add: get_def)
qed



lemma get_cases:
  "get S s k =
     (case ds_get (child_datastore S) s k of
        Inl e \<Rightarrow> Inl e
      | Inr r \<Rightarrow> if r = PNone then Inr PNone else loads (serializer S) r)"
  by (simp add: get_def split: sum.splits)

text \<open>
  C5, as stated, fails: \<open>get\<close> answers "not found" although a value is stored under the
  key. The child holds the text \<open>null\<close> under \<open>k\<close> (put there as the tests put serialized
  values into the child), and the serializer's \<open>loads\<close> returns \<open>None\<close> for it.
\<close>

theorem get_not_found_counterexample:
  "ds_put DictDatastore [] ''k'' (PStr ''null'') = Inr [(''k'', PStr ''null'')]
   \<and> ds_get DictDatastore [(''k'', PStr ''null'')] ''k'' = Inr (PStr ''null'')
   \<and> get \<lparr>child_datastore = DictDatastore, serializer = null_aware\<rparr>
         [(''k'', PStr ''null'')] ''k'' = Inr PNone"
  by (simp add: get_def DictDatastore_def null_aware_def)

text \<open>
  C5, amended. \<open>get(k)\<close> returns \<open>None\<close>, and raises nothing, exactly when the child
  reports nothing under \<open>k\<close> or the serializer's \<open>loads\<close> returns \<open>None\<close> for the data the
  child holds. A value that is not \<open>None\<close>, stored by \<open>put(k, val)\<close> through a serializer
  that undoes its \<open>dumps\<close> on it (the serialized data not being \<open>None\<close>) into a child that
  returns what was put, reads back as \<open>val\<close>, and so is told apart from absence.
\<close>

theorem get_not_found:
  "(get S s k = Inr PNone) =
     (ds_get (child_datastore S) s k = Inr PNone
      \<or> (\<exists>r. ds_get (child_datastore S) s k = Inr r \<and> r \<noteq> PNone
             \<and> loads (serializer S) r = Inr PNone))
   \<and> (val \<noteq> PNone \<and> dumps (serializer S) val = Inr r \<and> r \<noteq> PNone
        \<and> loads (serializer S) r = Inr val \<and> get_after_put (child_datastore S)
        \<and> put S s k val = Inr s'
      \<longrightarrow> get S s' k = Inr val \<and> get S s' k \<noteq> Inr PNone)"
proof (rule conjI)
  show "(get S s k = Inr PNone) =
     (ds_get (child_datastore S) s k = Inr PNone
      \<or> (\<exists>r. ds_get (child_datastore S) s k = Inr r \<and> r \<noteq> PNone
             \<and> loads (serializer S) r = Inr PNone))"
    by (cases "ds_get (child_datastore S) s k") (auto simp: get_cases)
next
  show "val \<noteq> PNone \<and> dumps (serializer S) val = Inr r \<and> r \<noteq> PNone
        \<and> loads (serializer S) r = Inr val \<and> get_after_put (child_datastore S)
        \<and> put S s k val = Inr s'
      \<longrightarrow> get S s' k = Inr val \<and> get S s' k \<noteq> Inr PNone"
    using get_after_shim_put(2) [of val S r s k s'] by auto
qed

theorem get_not_found_witness:
  "get \<lparr>child_datastore = DictDatastore, serializer = boxing\<rparr> [] ''hello'' = Inr PNone
   \<and> ds_get DictDatastore [] ''hello'' = Inr PNone
   \<and> PStr ''world'' \<noteq> PNone
   \<and> dumps boxing (PStr ''world'') = Inr (PList [PStr ''world''])
   \<and> loads boxing (PList [PStr ''world'']) = Inr (PStr ''world'')
   \<and> get_after_put DictDatastore
   \<and> put \<lparr>child_datastore = DictDatastore, serializer = boxing\<rparr> [] ''hello'' (PStr ''world'')
       = Inr [(''hello'', PList [PStr ''world''])]
   \<and> get \<lparr>child_datastore = DictDatastore, serializer = boxing\<rparr>
         [(''hello'', PList [PStr ''world''])] ''hello'' = Inr (PStr ''world'')"
  using get_not_found [of "\<lparr>child_datastore = DictDatastore, serializer = boxing\<rparr>" "[]"
      "''hello''" "PStr ''world''" "PList [PStr ''world'']" "[(''hello'', PList [PStr ''world''])]"]
    get_after_put_DictDatastore
  by (simp add: put_def get_def boxing_def DictDatastore_def)

section \<open>The constructor's self-test\<close>


lemma SerializerShimDatastore_Some:
  "SerializerShimDatastore d r C (Some J) =
     (let J' = (if truthy J then J else d); test = PDict [(PStr ''value'', PStr r)]
      in case dumps J' test of
           Inl e \<Rightarrow> Inl e
         | Inr serialized \<Rightarrow>
             (case loads J' serialized of
                Inl e \<Rightarrow> Inl e
              | Inr deserialized \<Rightarrow>
                  if deserialized = test then Inr \<lparr>child_datastore = C, serializer = J'\<rparr>
                  else Inl (AssertionError error_str)))"
  by (simp add: SerializerShimDatastore_def)

text \<open>
  An empty \<open>Stack\<close> passed to the constructor is false for \<open>if serializer:\<close>, so the
  object is configured with the default serializer, as if none had been passed.
\<close>

lemma empty_Stack_not_configured:
  "SerializerShimDatastore d r C (Some (Stack [])) = SerializerShimDatastore d r C None"
  by (simp add: SerializerShimDatastore_def)

lemma constructed_iff:
  "(\<exists>self. SerializerShimDatastore d r C (Some J) = Inr self)
     = round_trips (if truthy J then J else d) (PDict [(PStr ''value'', PStr r)])"
  by (simp add: SerializerShimDatastore_Some round_trips_def Let_def split: sum.splits)



text \<open>
  C10. The self-test value is the one-entry dict \<open>{'value': repr(self)}\<close>, whose value is a
  string, so construction returns an object exactly when the configured serializer (the
  one passed, or the default when the one passed is false) round-trips that dict. There
  is a serializer, \<open>str_serializer\<close>, that round-trips every string and is rejected at
  construction all the same, because it does not round-trip a dict.
\<close>

theorem self_test_is_a_dict:
  "(\<exists>self. SerializerShimDatastore d r C (Some J) = Inr self)
     = round_trips (if truthy J then J else d) (PDict [(PStr ''value'', PStr r)])
   \<and> (\<forall>text. round_trips str_serializer (PStr text))
   \<and> SerializerShimDatastore d r C (Some str_serializer) = Inl (AssertionError error_str)"
  by (simp add: constructed_iff)
     (simp add: SerializerShimDatastore_Some str_serializer_def round_trips_def)

section \<open>The shim: query and the deserializing generator\<close>

lemma next_gen_Cons:
  "iter_next (Deserialized_gen J (Source (x # xs))) log =
     (case loads J x of
        Inr v \<Rightarrow> (Yield v, Deserialized_gen J (Source xs), log @ [Loads_call x])
      | Inl e \<Rightarrow> (Raise e, Finished, log @ [Loads_call x]))"
  by simp

text \<open>When every \<open>loads\<close> returns: the first \<open>m\<close> results, from the first \<open>m\<close> calls.\<close>

lemma consume_gen_returns:
  "map (loads J) xs = map Inr ys \<Longrightarrow>
   consume m (Deserialized_gen J (Source xs)) log =
     (take m ys, None,
      if m \<le> length xs then Deserialized_gen J (Source (drop m xs)) else Finished,
      log @ map Loads_call (take m xs))"
proof (induction m arbitrary: xs ys log)
  case 0
  show ?case by simp
next
  case (Suc m)
  show ?case
  proof (cases xs)
    case Nil
    with Suc.prems show ?thesis by simp
  next
    case (Cons x xs')
    with Suc.prems obtain y ys' where ys: "ys = y # ys'" "loads J x = Inr y"
      "map (loads J) xs' = map Inr ys'"
      by (cases ys) auto
    from Suc.IH [OF ys(3)] Cons ys(1,2) show ?thesis
      by (simp only: consume.simps next_gen_Cons) simp
  qed
qed

text \<open>
  Whatever \<open>loads\<close> does: asking for \<open>m\<close> elements calls it on a prefix of at most \<open>m\<close>
  items of the child's sequence.
\<close>

lemma consume_gen_calls:
  "consume m (Deserialized_gen J (Source xs)) log = (vs, e, it', log') \<Longrightarrow>
   \<exists>n\<le>m. log' = log @ map Loads_call (take n xs) \<and> length vs \<le> n"
proof (induction m arbitrary: xs log vs e it' log')
  case 0
  then show ?case by simp
next
  case (Suc m)
  show ?case
  proof (cases xs)
    case Nil
    with Suc.prems show ?thesis by auto
  next
    case (Cons x xs')
    show ?thesis
    proof (cases "loads J x")
      case (Inl err)
      with Suc.prems Cons have "log' = log @ map Loads_call (take 1 xs)" "vs = []"
        by auto
      then show ?thesis by (intro exI [of _ 1]) simp
    next
      case (Inr v)
      obtain vs1 e1 it1 log1
        where c: "consume m (Deserialized_gen J (Source xs')) (log @ [Loads_call x])
                   = (vs1, e1, it1, log1)"
        by (cases "consume m (Deserialized_gen J (Source xs')) (log @ [Loads_call x])") auto
      from Suc.IH [OF c] obtain n
        where n: "n \<le> m" "log1 = (log @ [Loads_call x]) @ map Loads_call (take n xs')"
          "length vs1 \<le> n"
        by blast
      from Suc.prems Cons Inr c have "vs = v # vs1" "log' = log1"
        by auto
      with n Cons show ?thesis
        by (intro exI [of _ "Suc n"]) simp
    qed
  qed
qed

lemma query_returns:
  "ds_query (child_datastore S) s q = Inr c \<Longrightarrow>
   query S s q = Inr (c\<lparr>iterable := Deserialized_gen (serializer S) (iterable c)\<rparr>)"
  by (simp add: query_def deserialized_gen_def)

text \<open>
  C3. For every query \<open>q\<close>: when the child's \<open>query(q)\<close> returns a cursor over the
  sequence \<open>xs\<close>, the shim's \<open>query(q)\<close> returns a cursor whose sequence is the suspended
  deserializing generator over \<open>xs\<close>, untouched. A consumer that takes at most \<open>m\<close>
  elements from it causes \<open>loads\<close> to be called on a prefix of at most \<open>m\<close> items of
  \<open>xs\<close>, whatever \<open>loads\<close> does. When \<open>loads\<close> returns on every item, the consumer gets
  the first \<open>m\<close> of the deserialized items (all of them when \<open>m\<close> reaches the length of
  \<open>xs\<close>), \<open>loads\<close> has been called on exactly the first \<open>m\<close> items, and the rest of \<open>xs\<close>
  is still unread.
\<close>

theorem query_is_lazy:
  assumes "ds_query (child_datastore S) s q = Inr c" and "iterable c = Source xs"
  shows "\<exists>c'. query S s q = Inr c'
    \<and> iterable c' = Deserialized_gen (serializer S) (Source xs)
    \<and> (\<forall>m log vs e it' log'. consume m (iterable c') log = (vs, e, it', log')
          \<longrightarrow> (\<exists>n\<le>m. log' = log @ map Loads_call (take n xs) \<and> length vs \<le> n))
    \<and> (\<forall>ys m log. map (loads (serializer S)) xs = map Inr ys
          \<longrightarrow> consume m (iterable c') log =
                (take m ys, None,
                 if m \<le> length xs then Deserialized_gen (serializer S) (Source (drop m xs))
                 else Finished,
                 log @ map Loads_call (take m xs)))"
proof -
  let ?gen = "Deserialized_gen (serializer S) (Source xs)"
  let ?c' = "c\<lparr>iterable := Deserialized_gen (serializer S) (iterable c)\<rparr>"
  have returned: "query S s q = Inr ?c'"
    using assms(1) by (rule query_returns)
  have gen: "iterable ?c' = ?gen"
    using assms(2) by simp
  have calls: "\<exists>n\<le>m. log' = log @ map Loads_call (take n xs) \<and> length vs \<le> n"
    if "consume m ?gen log = (vs, e, it', log')" for m log vs e it' log'
    using that by (rule consume_gen_calls)
  have results: "consume m ?gen log =
      (take m ys, None,
       if m \<le> length xs then Deserialized_gen (serializer S) (Source (drop m xs)) else Finished,
       log @ map Loads_call (take m xs))"
    if "map (loads (serializer S)) xs = map Inr ys" for ys m log
    using that by (rule consume_gen_returns)
  from returned gen calls results show ?thesis
    by (intro exI [of _ ?c']) (simp only: simp_thms, blast)
qed

theorem query_is_lazy_witness:
  "ds_query DictDatastore [(''a'', PList [PInt 1]), (''b'', PList [PInt 2]), (''c'', PList [PInt 3])] ()
     = Inr \<lparr>iterable = Source [PList [PInt 1], PList [PInt 2], PList [PInt 3]], total = 3\<rparr>
   \<and> map (loads boxing) [PList [PInt 1], PList [PInt 2], PList [PInt 3]]
     = map Inr [PInt 1, PInt 2, PInt 3]
   \<and> (\<exists>c'. query \<lparr>child_datastore = DictDatastore, serializer = boxing\<rparr>
         [(''a'', PList [PInt 1]), (''b'', PList [PInt 2]), (''c'', PList [PInt 3])] () = Inr c'
       \<and> consume 2 (iterable c') [] =
           ([PInt 1, PInt 2], None, Deserialized_gen boxing (Source [PList [PInt 3]]),
            [Loads_call (PList [PInt 1]), Loads_call (PList [PInt 2])]))"
proof -
  let ?S = "\<lparr>child_datastore = DictDatastore, serializer = boxing\<rparr>"
  let ?s = "[(''a'', PList [PInt 1]), (''b'', PList [PInt 2]), (''c'', PList [PInt 3])]"
  let ?xs = "[PList [PInt 1], PList [PInt 2], PList [PInt 3]]"
  let ?c = "\<lparr>iterable = Source ?xs, total = 3\<rparr>"
  have 1: "ds_query (child_datastore ?S) ?s () = Inr ?c"
    by (simp add: DictDatastore_def)
  have 2: "iterable ?c = Source ?xs"
    by simp
  have 3: "map (loads (serializer ?S)) ?xs = map Inr [PInt 1, PInt 2, PInt 3]"
    by (simp add: boxing_def)
  from query_is_lazy [OF 1 2] obtain c' where c': "query ?S ?s () = Inr c'"
    and all: "\<forall>ys m log. map (loads (serializer ?S)) ?xs = map Inr ys
          \<longrightarrow> consume m (iterable c') log =
                (take m ys, None,
                 if m \<le> length ?xs then Deserialized_gen (serializer ?S) (Source (drop m ?xs))
                 else Finished,
                 log @ map Loads_call (take m ?xs))"
    by blast
  from all 3 have "consume 2 (iterable c') [] =
      (take 2 [PInt 1, PInt 2, PInt 3], None,
       if 2 \<le> length ?xs then Deserialized_gen (serializer ?S) (Source (drop 2 ?xs))
       else Finished,
       [] @ map Loads_call (take 2 ?xs))"
    by blast
  then have "consume 2 (iterable c') [] =
      ([PInt 1, PInt 2], None, Deserialized_gen boxing (Source [PList [PInt 3]]),
       [Loads_call (PList [PInt 1]), Loads_call (PList [PInt 2])])"
    by (simp add: numeral_2_eq_2)
  with c' 1 3 show ?thesis
    by auto
qed

text \<open>
  C9. For every query \<open>q\<close>, the cursor that the shim's \<open>query(q)\<close> returns is the child's
  cursor with its sequence replaced by the deserializing generator over the child's
  sequence, and nothing else: every other part of the cursor (what the backend supplied,
  such as a total count) is the child's.
\<close>

theorem query_keeps_cursor:
  assumes "ds_query (child_datastore S) s q = Inr c"
  shows "\<exists>c'. query S s q = Inr c'
    \<and> c' = c\<lparr>iterable := iterable c'\<rparr>
    \<and> cursor.more c' = cursor.more c
    \<and> iterable c' = Deserialized_gen (serializer S) (iterable c)"
  using query_returns [OF assms] by simp

theorem query_keeps_cursor_witness:
  "ds_query DictDatastore [(''a'', PList [PInt 1]), (''b'', PList [PInt 2])] ()
     = Inr \<lparr>iterable = Source [PList [PInt 1], PList [PInt 2]], total = 2\<rparr>
   \<and> (\<exists>c'. query \<lparr>child_datastore = DictDatastore, serializer = boxing\<rparr>
         [(''a'', PList [PInt 1]), (''b'', PList [PInt 2])] () = Inr c'
       \<and> total c' = 2
       \<and> iterable c' = Deserialized_gen boxing (Source [PList [PInt 1], PList [PInt 2]]))"
proof -
  let ?S = "\<lparr>child_datastore = DictDatastore, serializer = boxing\<rparr>"
  let ?s = "[(''a'', PList [PInt 1]), (''b'', PList [PInt 2])]"
  let ?c = "\<lparr>iterable = Source [PList [PInt 1], PList [PInt 2]], total = 2\<rparr>"
  have 1: "ds_query (child_datastore ?S) ?s () = Inr ?c"
    by (simp add: DictDatastore_def)
  from query_keeps_cursor [OF 1] obtain c' where c': "query ?S ?s () = Inr c'"
    "c' = ?c\<lparr>iterable := iterable c'\<rparr>"
    "iterable c' = Deserialized_gen (serializer ?S) (iterable ?c)"
    by blast
  from c'(2) have "total c' = total (?c\<lparr>iterable := iterable c'\<rparr>)"
    by (rule arg_cong)
  then have "total c' = 2"
    by simp
  with c'(1,3) 1 show ?thesis
    by auto
qed

section \<open>Keys: normalization, child and parent, ancestry\<close>

lemma collapse_hd: "\<exists>cs'. collapse_separators (c # cs) = c # cs'"
  by (induction "c # cs" arbitrary: c cs rule: collapse_separators.induct) auto

lemma no_repeat_Cons:
  "no_repeat (a # s) = ((s = [] \<or> \<not> (a = CHR ''/'' \<and> hd s = CHR ''/'')) \<and> no_repeat s)"
  by (cases s) auto

lemma collapse_no_repeat: "no_repeat (collapse_separators s)"
proof (induction s rule: collapse_separators.induct)
  case (1 a b cs)
  obtain cs' where "collapse_separators (b # cs) = b # cs'"
    using collapse_hd by blast
  with 1 show ?case by (auto simp: no_repeat_Cons)
qed simp_all

lemma collapse_fixed: "no_repeat s \<Longrightarrow> collapse_separators s = s"
  by (induction s rule: collapse_separators.induct) auto

lemma butlast_no_repeat: "no_repeat s \<Longrightarrow> no_repeat (butlast s)"
  by (induction s rule: no_repeat.induct) (auto simp: no_repeat_Cons)



lemma drop_trailing_no_repeat: "no_repeat s \<Longrightarrow> no_repeat (drop_trailing_separator s)"
  by (simp add: drop_trailing_separator_def butlast_no_repeat)

lemma no_repeat_last_butlast:
  "no_repeat s \<Longrightarrow> butlast s \<noteq> [] \<Longrightarrow> last s = CHR ''/'' \<Longrightarrow> last (butlast s) \<noteq> CHR ''/''"
  by (induction s rule: no_repeat.induct) (auto split: if_splits)

lemma drop_trailing_fixed:
  "no_repeat s \<Longrightarrow>
   drop_trailing_separator (drop_trailing_separator s) = drop_trailing_separator s"
  using no_repeat_last_butlast [of s]
  by (auto simp: drop_trailing_separator_def)

lemma normalized_no_repeat: "no_repeat (remove_duplicate_slashes s)"
  by (simp add: remove_duplicate_slashes_def drop_trailing_no_repeat collapse_no_repeat)

lemma remove_duplicate_slashes_idem:
  "remove_duplicate_slashes (remove_duplicate_slashes s) = remove_duplicate_slashes s"
  by (simp add: remove_duplicate_slashes_def collapse_fixed drop_trailing_no_repeat
      collapse_no_repeat drop_trailing_fixed)

lemma normalized_end:
  "remove_duplicate_slashes s = [] \<or> remove_duplicate_slashes s = ''/''
   \<or> last (remove_duplicate_slashes s) \<noteq> CHR ''/''"
  using no_repeat_last_butlast [of "collapse_separators s"] collapse_no_repeat [of s]
  by (auto simp: remove_duplicate_slashes_def drop_trailing_separator_def)

text \<open>
  C6. Normalization is idempotent: for every raw string \<open>s\<close>, normalizing the normalized
  string changes nothing. The normalized string has no repeated separator and, unless it
  is empty or the root \<open>/\<close>, no trailing separator. The constructor \<open>Key\<close> stores exactly
  the normalized string, and a key built from a key's string is that key.
\<close>

theorem normalization_idempotent:
  "remove_duplicate_slashes (remove_duplicate_slashes s) = remove_duplicate_slashes s
   \<and> no_repeat (remove_duplicate_slashes s)
   \<and> (remove_duplicate_slashes s = [] \<or> remove_duplicate_slashes s = ''/''
        \<or> last (remove_duplicate_slashes s) \<noteq> CHR ''/'')
   \<and> key_string (Key s) = remove_duplicate_slashes s
   \<and> Key (key_string (Key s)) = Key s"
  using normalized_end [of s]
  by (simp add: Key_def remove_duplicate_slashes_idem normalized_no_repeat)

text \<open>The spec's scenario: \<open>/fdisaha////fdsa////x/y/\<close> normalizes to \<open>/fdisaha/fdsa/x/y\<close>.\<close>

lemma scenario_normalize:
  "remove_duplicate_slashes ''/fdisaha////fdsa////x/y/'' = ''/fdisaha/fdsa/x/y''"
  by (simp add: remove_duplicate_slashes_def drop_trailing_separator_def)













text \<open>The assertions of \<open>test_ancestry\<close> (test_key.py) on \<open>child\<close> and \<open>parent\<close>.\<close>

lemma test_ancestry_child_parent:
  "child (Key ''/A/B/C'') ''D'' = Key ''/A/B/C/D''"
  "parent (Key ''/A/B/C/D'') = Inr (Key ''/A/B/C'')"
  by (simp_all add: parent_def child_def Key_def remove_duplicate_slashes_def
      drop_trailing_separator_def)

text \<open>
  C8. For all keys \<open>k1\<close> and \<open>k2\<close>: \<open>k1\<close> is an ancestor of \<open>k2\<close> if and only if \<open>k2\<close> is a
  descendant of \<open>k1\<close>; \<open>k1\<close> is an ancestor of \<open>k2\<close> exactly when the string of \<open>k2\<close>
  starts with the string of \<open>k1\<close> plus a separator and the two keys are unequal; and no
  key is its own ancestor or its own descendant.
\<close>

theorem ancestor_descendant:
  "is_ancestor_of k1 k2 = is_descendant_of k2 k1
   \<and> is_ancestor_of k1 k2 = (prefix (key_string k1 @ ''/'') (key_string k2) \<and> k1 \<noteq> k2)
   \<and> \<not> is_ancestor_of k k \<and> \<not> is_descendant_of k k"
  by (simp add: is_ancestor_of_def is_descendant_of_def)

text \<open>The assertions of \<open>test_ancestry\<close> (test_key.py) hold of the keys as modelled.\<close>

lemma test_ancestry_relations:
  "key_string (Key ''/A/B/C'') = ''/A/B/C''"
  "key_string (Key ''/A/B/C/D'') = ''/A/B/C/D''"
  "is_ancestor_of (Key ''/A/B/C'') (Key ''/A/B/C/D'')"
  "is_descendant_of (Key ''/A/B/C/D'') (Key ''/A/B/C'')"
  "is_ancestor_of (Key ''/A'') (Key ''/A/B/C/D'')"
  "is_ancestor_of (Key ''/A'') (Key ''/A/B/C'')"
  "\<not> is_descendant_of (Key ''/A'') (Key ''/A/B/C/D'')"
  "\<not> is_descendant_of (Key ''/A'') (Key ''/A/B/C'')"
  "is_descendant_of (Key ''/A/B/C/D'') (Key ''/A'')"
  "is_descendant_of (Key ''/A/B/C'') (Key ''/A'')"
  "\<not> is_ancestor_of (Key ''/A/B/C/D'') (Key ''/A'')"
  "\<not> is_ancestor_of (Key ''/A/B/C'') (Key ''/A'')"
  "\<not> is_ancestor_of (Key ''/A/B/C/D'') (Key ''/A/B/C/D'')"
  "\<not> is_ancestor_of (Key ''/A/B/C'') (Key ''/A/B/C'')"
  by (simp_all add: Key_def remove_duplicate_slashes_def drop_trailing_separator_def
      is_ancestor_of_def is_descendant_of_def)

end
